theory Spec2Isabelle
  imports Main "HOL-Library.Sublist"
begin

section \<open>Python values, exceptions and effects\<close>

text \<open>
  The two source files are Python. The values they build and pass around are
  \<^verbatim>\<open>None\<close>, integers, strings and dictionaries with string keys; a dictionary is
  an association list in insertion order, as Python keeps it.
\<close>

datatype pyval =
    PNone
  | PBool bool
  | PInt int
  | PStr string
  | PDict "(string \<times> pyval) list"

text \<open>A raised exception: the name of its class and its message.\<close>

datatype pyexn = PyExn (exn_type: string) (exn_msg: string)

text \<open>
  A Python call runs in a state of the world \<open>'w\<close> (everything outside the function:
  the process, the libraries, the network). It either returns a value (\<open>Inr\<close>) or
  raises (\<open>Inl\<close>), and leaves a state of the world behind.
\<close>

type_synonym ('a, 'w) py = "'w \<Rightarrow> (pyexn + 'a) \<times> 'w"

text \<open>\<^verbatim>\<open>d[k]\<close> on a dictionary value, \<open>None\<close> when the value is no dictionary or has no such key.\<close>

fun dict_get :: "pyval \<Rightarrow> string \<Rightarrow> pyval option" where
  "dict_get (PDict kvs) k = map_of kvs k"
| "dict_get _ k = None"

fun dict_keys :: "pyval \<Rightarrow> string list" where
  "dict_keys (PDict kvs) = map fst kvs"
| "dict_keys _ = []"


section \<open>The static page handler: \<^verbatim>\<open>hello_world/app.py\<close>\<close>

text \<open>
  \<^verbatim>\<open>html_content\<close> is a triple-quoted literal: it starts right after the opening
  quotes, so with the line break that follows them, and ends with the indentation of
  the line that holds the closing quotes.
\<close>

definition html_content :: string where
  "html_content =
     ''\<newline><!DOCTYPE html>\<newline><html>\<newline><head>\<newline>    <title>Novey Cloud</title>\<newline></head>\<newline><body>\<newline>    <h1>Welcome to Django!</h1>\<newline>    <p>This is your index.html page.</p>\<newline></body>\<newline></html>\<newline>    ''"

text \<open>
  \<^verbatim>\<open>def lambda_handler(event, context)\<close>: binds the literal and returns the
  dictionary. Neither parameter is read, nothing outside the function is touched.
\<close>

definition lambda_handler :: "pyval \<Rightarrow> pyval \<Rightarrow> (pyval, 'w) py" where
  "lambda_handler event context w =
     (Inr (PDict
        [(''statusCode'', PInt 200),
         (''headers'', PDict [(''Content-Type'', PStr ''text/html'')]),
         (''body'', PStr html_content)]),
      w)"


section \<open>The presigned URL helper: \<^verbatim>\<open>secure_share/views.py\<close>\<close>

text \<open>
  The helper reads four attributes of Django's process-wide \<^verbatim>\<open>settings\<close>. The
  settings module is not part of the sources, so the settings object is a parameter:
  \<open>settings name\<close> is the attribute read \<^verbatim>\<open>settings.name\<close>. Like any Python
  operation it runs in the world, and it raises when the attribute is not set
  (\<^verbatim>\<open>AttributeError\<close>) or the settings are not configured.
\<close>

type_synonym 'w settings = "string \<Rightarrow> (pyval, 'w) py"

text \<open>
  \<^verbatim>\<open>boto3\<close> is an external library, a parameter too. The helper uses two of its
  entry points: \<^verbatim>\<open>boto3.client(service, **kwargs)\<close>, which builds a client \<open>'cl\<close>,
  and the client's method
  \<^verbatim>\<open>generate_presigned_url(ClientMethod, Params=..., ExpiresIn=...)\<close>. Either may
  raise, and either may change the world.
\<close>

record ('cl, 'w) boto3 =
  client :: "string \<Rightarrow> (string \<times> pyval) list \<Rightarrow> ('cl, 'w) py"
  client_generate_presigned_url :: "'cl \<Rightarrow> string \<Rightarrow> pyval \<Rightarrow> pyval \<Rightarrow> (pyval, 'w) py"

text \<open>
  \<^verbatim>\<open>def generate_presigned_url(file_key, expiration=3600)\<close>. The second argument is
  optional: \<open>None\<close> is the call that omits it, and the parameter is then bound to its
  default. The body is two statements, evaluated in Python's order: the three keyword
  arguments of \<^verbatim>\<open>boto3.client\<close> are read from the settings left to right, then the
  constructor is called; the bucket name is read from the settings when the
  \<^verbatim>\<open>Params\<close> dictionary is built, after the constructor has returned, and then the
  signing method is called. There is no \<^verbatim>\<open>try\<close> in the body: the first operation
  that raises ends the call with its exception, and the outcome of the signing method
  is the outcome of the call.
\<close>

definition generate_presigned_url ::
    "'w settings \<Rightarrow> ('cl, 'w) boto3 \<Rightarrow> pyval \<Rightarrow> pyval option \<Rightarrow> (pyval, 'w) py" where
  "generate_presigned_url settings boto3 file_key expiration_arg w =
     (let expiration = (case expiration_arg of None \<Rightarrow> PInt 3600 | Some v \<Rightarrow> v) in
      case settings ''AWS_S3_REGION_NAME'' w of
        (Inl e, w1) \<Rightarrow> (Inl e, w1)
      | (Inr region_name, w1) \<Rightarrow>
      case settings ''AWS_ACCESS_KEY_ID'' w1 of
        (Inl e, w2) \<Rightarrow> (Inl e, w2)
      | (Inr aws_access_key_id, w2) \<Rightarrow>
      case settings ''AWS_SECRET_ACCESS_KEY'' w2 of
        (Inl e, w3) \<Rightarrow> (Inl e, w3)
      | (Inr aws_secret_access_key, w3) \<Rightarrow>
      case client boto3 ''s3''
             [(''region_name'', region_name),
              (''aws_access_key_id'', aws_access_key_id),
              (''aws_secret_access_key'', aws_secret_access_key)] w3 of
        (Inl e, w4) \<Rightarrow> (Inl e, w4)
      | (Inr s3_client, w4) \<Rightarrow>
      case settings ''AWS_STORAGE_BUCKET_NAME'' w4 of
        (Inl e, w5) \<Rightarrow> (Inl e, w5)
      | (Inr bucket, w5) \<Rightarrow>
          client_generate_presigned_url boto3 s3_client ''get_object''
            (PDict [(''Bucket'', bucket), (''Key'', file_key)])
            expiration w5)"


subsection \<open>Observing what the helper does\<close>

text \<open>
  What the helper asks of the settings and of the library is observed by running it
  against instrumented ones: \<open>logged_settings s\<close> and \<open>logged b\<close> behave as \<open>s\<close> and
  \<open>b\<close> and append every operation, with its arguments and its outcome, to a log kept
  beside the world.
\<close>

datatype 'cl event =
    SettingsRead string "pyexn + pyval"
  | ClientCall string "(string \<times> pyval) list" "pyexn + 'cl"
  | SignCall 'cl string pyval pyval "pyexn + pyval"

definition logged_settings :: "'w settings \<Rightarrow> ('w \<times> 'cl event list) settings" where
  "logged_settings s =
     (\<lambda>name (w, lg).
        case s name w of (r, w') \<Rightarrow> (r, (w', lg @ [SettingsRead name r])))"

definition logged :: "('cl, 'w) boto3 \<Rightarrow> ('cl, 'w \<times> 'cl event list) boto3" where
  "logged b =
     \<lparr> client = (\<lambda>service kwargs (w, lg).
         case client b service kwargs w of
           (r, w') \<Rightarrow> (r, (w', lg @ [ClientCall service kwargs r]))),
       client_generate_presigned_url = (\<lambda>cl m params ex (w, lg).
         case client_generate_presigned_url b cl m params ex w of
           (r, w') \<Rightarrow> (r, (w', lg @ [SignCall cl m params ex r]))) \<rparr>"

text \<open>The log of one call of the helper, started with an empty log.\<close>

definition trace ::
    "'w settings \<Rightarrow> ('cl, 'w) boto3 \<Rightarrow> pyval \<Rightarrow> pyval option \<Rightarrow> 'w \<Rightarrow> 'cl event list" where
  "trace s b file_key expiration_arg w =
     snd (snd (generate_presigned_url (logged_settings s) (logged b)
                 file_key expiration_arg (w, [])))"


text \<open>The signing requests of a log, in order.\<close>

record 'cl sign_request =
  on_client :: 'cl
  ClientMethod :: string
  Params :: pyval
  ExpiresIn :: pyval

fun sign_requests :: "'cl event list \<Rightarrow> 'cl sign_request list" where
  "sign_requests [] = []"
| "sign_requests (SignCall cl m params ex r # evs) =
     \<lparr>on_client = cl, ClientMethod = m, Params = params, ExpiresIn = ex\<rparr> # sign_requests evs"
| "sign_requests (ClientCall service kwargs r # evs) = sign_requests evs"
| "sign_requests (SettingsRead name r # evs) = sign_requests evs"

text \<open>Everything in a log but the signing requests: what the helper did to get there.\<close>

fun preparation :: "'cl event list \<Rightarrow> 'cl event list" where
  "preparation [] = []"
| "preparation (SignCall cl m params ex r # evs) = preparation evs"
| "preparation (ClientCall service kwargs r # evs) =
     ClientCall service kwargs r # preparation evs"
| "preparation (SettingsRead name r # evs) = SettingsRead name r # preparation evs"

text \<open>The settings reads of a log (attribute and outcome), in order.\<close>

fun settings_reads :: "'cl event list \<Rightarrow> (string \<times> (pyexn + pyval)) list" where
  "settings_reads [] = []"
| "settings_reads (SettingsRead name r # evs) = (name, r) # settings_reads evs"
| "settings_reads (ClientCall service kwargs r # evs) = settings_reads evs"
| "settings_reads (SignCall cl m params ex r # evs) = settings_reads evs"


text \<open>The clients that the constructor calls of a log returned.\<close>

fun constructed :: "'cl event list \<Rightarrow> 'cl list" where
  "constructed [] = []"
| "constructed (ClientCall service kwargs (Inr cl) # evs) = cl # constructed evs"
| "constructed (ClientCall service kwargs (Inl e) # evs) = constructed evs"
| "constructed (SignCall cl m params ex r # evs) = constructed evs"
| "constructed (SettingsRead name r # evs) = constructed evs"

text \<open>The exceptions that the settings reads of a log raised.\<close>

fun settings_raised :: "'cl event list \<Rightarrow> pyexn list" where
  "settings_raised [] = []"
| "settings_raised (SettingsRead name (Inl e) # evs) = e # settings_raised evs"
| "settings_raised (SettingsRead name (Inr v) # evs) = settings_raised evs"
| "settings_raised (ClientCall service kwargs r # evs) = settings_raised evs"
| "settings_raised (SignCall cl m params ex r # evs) = settings_raised evs"

text \<open>
  The exceptions that the storage client raised in a log: the constructor or the
  signing method.
\<close>

fun client_raised :: "'cl event list \<Rightarrow> pyexn list" where
  "client_raised [] = []"
| "client_raised (ClientCall service kwargs (Inl e) # evs) = e # client_raised evs"
| "client_raised (ClientCall service kwargs (Inr cl) # evs) = client_raised evs"
| "client_raised (SignCall cl m params ex (Inl e) # evs) = e # client_raised evs"
| "client_raised (SignCall cl m params ex (Inr v) # evs) = client_raised evs"
| "client_raised (SettingsRead name r # evs) = client_raised evs"

text \<open>The values that the signing requests of a log returned, each with the method signed for.\<close>

fun signed :: "'cl event list \<Rightarrow> (string \<times> pyval) list" where
  "signed [] = []"
| "signed (SignCall cl m params ex (Inr v) # evs) = (m, v) # signed evs"
| "signed (SignCall cl m params ex (Inl e) # evs) = signed evs"
| "signed (ClientCall service kwargs r # evs) = signed evs"
| "signed (SettingsRead name r # evs) = signed evs"


subsection \<open>What a caller may expect of the signer\<close>

text \<open>
  The signed URL is the library's work. Two properties a signer may or may not have:
  it puts the \<^verbatim>\<open>ExpiresIn\<close> it was given into the URL, where \<open>expiry\<close> reads it
  back, and the URL contains the bucket name and the key of the request.
\<close>

definition embeds_expiry :: "('cl, 'w) boto3 \<Rightarrow> (string \<Rightarrow> pyval) \<Rightarrow> bool" where
  "embeds_expiry b expiry \<longleftrightarrow>
     (\<forall>cl m params ex w url.
        fst (client_generate_presigned_url b cl m params ex w) = Inr (PStr url)
        \<longrightarrow> expiry url = ex)"



subsection \<open>Stand-ins for the settings and the library\<close>

text \<open>
  Settings given by a list of attributes: reading an attribute of the list returns its
  value, reading any other raises \<^verbatim>\<open>AttributeError\<close>; the world is left alone.
\<close>

definition settings_of :: "(string \<times> pyval) list \<Rightarrow> 'w settings" where
  "settings_of attrs name w =
     (case map_of attrs name of
        Some v \<Rightarrow> (Inr v, w)
      | None \<Rightarrow> (Inl (PyExn ''AttributeError'' name), w))"

definition demo_settings :: "'w settings" where
  "demo_settings =
     settings_of
       [(''AWS_S3_REGION_NAME'', PStr ''eu-west-1''),
        (''AWS_ACCESS_KEY_ID'', PStr ''AKIDEXAMPLE''),
        (''AWS_SECRET_ACCESS_KEY'', PStr ''secret''),
        (''AWS_STORAGE_BUCKET_NAME'', PStr ''share-bucket'')]"


text \<open>Settings in which the bucket name is not set.\<close>

definition unset_bucket_settings :: "'w settings" where
  "unset_bucket_settings =
     settings_of
       [(''AWS_S3_REGION_NAME'', PStr ''eu-west-1''),
        (''AWS_ACCESS_KEY_ID'', PStr ''AKIDEXAMPLE''),
        (''AWS_SECRET_ACCESS_KEY'', PStr ''secret'')]"

text \<open>
  A small library to run the helper against. Its world is the number of clients built
  so far, and a client is its serial number. The constructor refuses a region name
  that is missing, empty or holds a space. The signer writes the URL out, with the
  \<^verbatim>\<open>ExpiresIn\<close> it was given as the last query parameter in decimal, and refuses a
  request whose bucket or key is no string or whose expiry is no integer from 0 up.
\<close>

definition digit :: "nat \<Rightarrow> char" where
  "digit d = ''0123456789'' ! d"

definition digit_value :: "char \<Rightarrow> nat" where
  "digit_value c = of_char c - 48"

fun decimal :: "nat \<Rightarrow> string" where
  "decimal n =
     (if n < 10 then [digit n] else decimal (n div 10) @ [digit (n mod 10)])"

declare decimal.simps [simp del]

definition read_decimal :: "string \<Rightarrow> nat" where
  "read_decimal cs = foldl (\<lambda>a c. 10 * a + digit_value c) 0 cs"

definition last_query_value :: "string \<Rightarrow> string" where
  "last_query_value url = rev (takeWhile (\<lambda>c. c \<noteq> CHR ''='') (rev url))"

definition expiry_param :: "string \<Rightarrow> pyval" where
  "expiry_param url = PInt (int (read_decimal (last_query_value url)))"

definition stub_boto3 :: "(nat, nat) boto3" where
  "stub_boto3 =
     \<lparr> client = (\<lambda>service kwargs n.
         case map_of kwargs ''region_name'' of
           Some (PStr r) \<Rightarrow>
             if r \<noteq> [] \<and> CHR '' '' \<notin> set r then (Inr n, Suc n)
             else (Inl (PyExn ''InvalidRegionError'' r), n)
         | _ \<Rightarrow> (Inl (PyExn ''NoRegionError'' []), n)),
       client_generate_presigned_url = (\<lambda>cl m params ex n.
         case (dict_get params ''Bucket'', dict_get params ''Key'', ex) of
           (Some (PStr bucket), Some (PStr key), PInt t) \<Rightarrow>
             if 0 \<le> t
             then (Inr (PStr (''https://'' @ bucket @ ''.s3.amazonaws.com/'' @ key
                              @ ''?X-Amz-Expires='' @ decimal (nat t))), n)
             else (Inl (PyExn ''ParamValidationError'' ''ExpiresIn''), n)
         | _ \<Rightarrow> (Inl (PyExn ''ParamValidationError'' ''Params''), n)) \<rparr>"

text \<open>The same library with a signer that refuses every request as unauthorised.\<close>

definition denying_boto3 :: "(nat, nat) boto3" where
  "denying_boto3 =
     stub_boto3 \<lparr> client_generate_presigned_url :=
       (\<lambda>cl m params ex n. (Inl (PyExn ''ClientError'' ''AccessDenied''), n)) \<rparr>"

text \<open>
  A library whose signer writes into the URL the time at which it expires, not the
  duration: its world is the clock, in seconds, and the last query parameter of the URL
  is the clock plus the \<^verbatim>\<open>ExpiresIn\<close> it was given.
\<close>

definition clock_boto3 :: "(nat, nat) boto3" where
  "clock_boto3 =
     \<lparr> client = (\<lambda>service kwargs now. (Inr 0, now)),
       client_generate_presigned_url = (\<lambda>cl m params ex now.
         case (dict_get params ''Bucket'', dict_get params ''Key'', ex) of
           (Some (PStr bucket), Some (PStr key), PInt t) \<Rightarrow>
             (Inr (PStr (''https://'' @ bucket @ ''.s3.amazonaws.com/'' @ key
                         @ ''?Expires='' @ decimal (nat (int now + t)))), now)
         | _ \<Rightarrow> (Inl (PyExn ''ParamValidationError'' ''Params''), now)) \<rparr>"


section \<open>Properties of the static page handler\<close>

text \<open>
  C1. For every invocation input, \<^verbatim>\<open>lambda_handler\<close> returns exactly the record
  with \<^verbatim>\<open>statusCode\<close> 200, \<^verbatim>\<open>headers\<close> holding the one entry
  \<^verbatim>\<open>Content-Type: text/html\<close>, and \<^verbatim>\<open>body\<close> the fixed HTML string. The
  record has these three fields and no other, and the same holds at the null and the
  empty event.
\<close>

theorem lambda_handler_response:
  "fst (lambda_handler event context w) =
     Inr (PDict
       [(''statusCode'', PInt 200),
        (''headers'', PDict [(''Content-Type'', PStr ''text/html'')]),
        (''body'', PStr html_content)])
   \<and> (\<exists>r. fst (lambda_handler event context w) = Inr r
          \<and> dict_keys r = [''statusCode'', ''headers'', ''body'']
          \<and> dict_get r ''statusCode'' = Some (PInt 200)
          \<and> dict_get r ''headers'' = Some (PDict [(''Content-Type'', PStr ''text/html'')])
          \<and> dict_get r ''body'' = Some (PStr html_content))
   \<and> fst (lambda_handler PNone PNone w) = fst (lambda_handler event context w)
   \<and> fst (lambda_handler (PDict []) (PDict []) w) = fst (lambda_handler event context w)"
  by (simp add: lambda_handler_def)

text \<open>
  C6. \<^verbatim>\<open>lambda_handler\<close> is deterministic and independent of its inputs: any two
  invocations, on any inputs and in any two states of the world, return equal records
  with the same body string, and each leaves the world as it found it.
\<close>

theorem lambda_handler_input_independent:
  "fst (lambda_handler event1 context1 w1) = fst (lambda_handler event2 context2 w2)
   \<and> (\<exists>r1 r2. fst (lambda_handler event1 context1 w1) = Inr r1
          \<and> fst (lambda_handler event2 context2 w2) = Inr r2
          \<and> dict_get r1 ''body'' = Some (PStr html_content)
          \<and> dict_get r2 ''body'' = dict_get r1 ''body'')
   \<and> snd (lambda_handler event1 context1 w1) = w1
   \<and> snd (lambda_handler event2 context2 w2) = w2"
  by (simp add: lambda_handler_def)

text \<open>
  C7. \<^verbatim>\<open>lambda_handler\<close> has no error path: on every input it returns a response
  record, and there is no input on which it raises.
\<close>

theorem lambda_handler_never_raises:
  "(\<exists>kvs. fst (lambda_handler event context w) = Inr (PDict kvs))
   \<and> (\<forall>e. fst (lambda_handler event context w) \<noteq> Inl e)"
  by (simp add: lambda_handler_def)

text \<open>
  C10. The HTML body is not trimmed: it begins with a line break, then
  \<^verbatim>\<open><!DOCTYPE html>\<close>, and ends with \<^verbatim>\<open></html>\<close>, a line break and four
  spaces. Its title is \<^verbatim>\<open>Novey Cloud\<close> and its heading \<^verbatim>\<open>Welcome to Django!\<close>.
\<close>

theorem html_content_shape:
  "prefix ''\<newline><!DOCTYPE html>'' html_content
   \<and> suffix ''</html>\<newline>    '' html_content
   \<and> hd html_content = CHR 0x0A
   \<and> last html_content = CHR 0x20
   \<and> sublist ''<title>Novey Cloud</title>'' html_content
   \<and> sublist ''<h1>Welcome to Django!</h1>'' html_content
   \<and> dict_get (projr (fst (lambda_handler event context w))) ''body'' = Some (PStr html_content)"
  by (simp add: lambda_handler_def) code_simp



section \<open>What one run of the helper does\<close>

lemmas helper_defs =
  generate_presigned_url_def trace_def logged_def logged_settings_def Let_def

text \<open>
  The log of a run in closed form: the operations in the order of the source, cut off
  after the first one that raises.
\<close>

lemma trace_cases:
  "trace s b k e w =
     (case s ''AWS_S3_REGION_NAME'' w of
        (Inl x, w1) \<Rightarrow> [SettingsRead ''AWS_S3_REGION_NAME'' (Inl x)]
      | (Inr region, w1) \<Rightarrow> SettingsRead ''AWS_S3_REGION_NAME'' (Inr region) #
     (case s ''AWS_ACCESS_KEY_ID'' w1 of
        (Inl x, w2) \<Rightarrow> [SettingsRead ''AWS_ACCESS_KEY_ID'' (Inl x)]
      | (Inr key_id, w2) \<Rightarrow> SettingsRead ''AWS_ACCESS_KEY_ID'' (Inr key_id) #
     (case s ''AWS_SECRET_ACCESS_KEY'' w2 of
        (Inl x, w3) \<Rightarrow> [SettingsRead ''AWS_SECRET_ACCESS_KEY'' (Inl x)]
      | (Inr secret, w3) \<Rightarrow> SettingsRead ''AWS_SECRET_ACCESS_KEY'' (Inr secret) #
     (case client b ''s3'' [(''region_name'', region), (''aws_access_key_id'', key_id),
                            (''aws_secret_access_key'', secret)] w3 of
        (Inl x, w4) \<Rightarrow>
          [ClientCall ''s3'' [(''region_name'', region), (''aws_access_key_id'', key_id),
                              (''aws_secret_access_key'', secret)] (Inl x)]
      | (Inr cl, w4) \<Rightarrow>
          ClientCall ''s3'' [(''region_name'', region), (''aws_access_key_id'', key_id),
                             (''aws_secret_access_key'', secret)] (Inr cl) #
     (case s ''AWS_STORAGE_BUCKET_NAME'' w4 of
        (Inl x, w5) \<Rightarrow> [SettingsRead ''AWS_STORAGE_BUCKET_NAME'' (Inl x)]
      | (Inr bucket, w5) \<Rightarrow>
          [SettingsRead ''AWS_STORAGE_BUCKET_NAME'' (Inr bucket),
           SignCall cl ''get_object'' (PDict [(''Bucket'', bucket), (''Key'', k)])
             (case e of None \<Rightarrow> PInt 3600 | Some v \<Rightarrow> v)
             (fst (generate_presigned_url s b k e w))])))))"
  by (simp add: helper_defs split: prod.splits sum.splits)

text \<open>
  The signing requests of a run, told from what the log holds before them: one request
  on the client that was built, once the bucket name has been read, and none otherwise.
\<close>

lemma sign_requests_trace:
  "sign_requests (trace s b k e w) =
     (case map_of (settings_reads (trace s b k e w)) ''AWS_STORAGE_BUCKET_NAME'' of
        Some (Inr bucket) \<Rightarrow>
          map (\<lambda>cl. \<lparr>on_client = cl, ClientMethod = ''get_object'',
                     Params = PDict [(''Bucket'', bucket), (''Key'', k)],
                     ExpiresIn = (case e of None \<Rightarrow> PInt 3600 | Some v \<Rightarrow> v)\<rparr>)
            (constructed (trace s b k e w))
      | _ \<Rightarrow> [])"
  by (simp add: trace_cases split: prod.splits sum.splits)

lemma sign_requests_expiration:
  "sign_requests (trace s b k (Some ex) w)
     = map (\<lambda>r. r\<lparr>ExpiresIn := ex\<rparr>) (sign_requests (trace s b k e' w))"
  by (simp add: trace_cases split: prod.splits sum.splits)

lemma preparation_trace:
  "preparation (trace s b k e w) = preparation (trace s b k' e' w)"
  by (simp add: trace_cases split: prod.splits sum.splits)

lemma constructed_trace: "length (constructed (trace s b k e w)) \<le> 1"
  by (simp add: trace_cases split: prod.splits sum.splits)


lemma raised_trace:
  "settings_raised (trace s b k e w) @ client_raised (trace s b k e w)
     = (case fst (generate_presigned_url s b k e w) of Inl x \<Rightarrow> [x] | Inr v \<Rightarrow> [])"
  by (auto simp: trace_cases generate_presigned_url_def Let_def split: prod.splits sum.splits)

lemma signed_trace:
  "signed (trace s b k e w)
     = (case fst (generate_presigned_url s b k e w) of
          Inl x \<Rightarrow> [] | Inr v \<Rightarrow> [(''get_object'', v)])"
  by (auto simp: trace_cases generate_presigned_url_def Let_def split: prod.splits sum.splits)

lemma methods_trace:
  "set (map ClientMethod (sign_requests (trace s b k e w))) \<subseteq> {''get_object''}"
  by (simp add: trace_cases split: prod.splits sum.splits)



text \<open>
  What the helper returns is what the signing method returned, for a request made of
  the bucket name read, the key and the expiration.
\<close>

lemma returned_url:
  assumes "fst (generate_presigned_url s b k e w) = Inr v"
  shows "\<exists>cl bucket w'.
           map_of (settings_reads (trace s b k e w)) ''AWS_STORAGE_BUCKET_NAME''
             = Some (Inr bucket)
           \<and> fst (client_generate_presigned_url b cl ''get_object''
                    (PDict [(''Bucket'', bucket), (''Key'', k)])
                    (case e of None \<Rightarrow> PInt 3600 | Some v \<Rightarrow> v) w') = Inr v"
  using assms
  by (auto simp: trace_cases generate_presigned_url_def Let_def split: prod.splits sum.splits)
     blast


section \<open>The stand-in signer writes what it is given into the URL\<close>

lemma digit_cases:
  "d < 10 \<Longrightarrow> d \<in> {0, 1, 2, 3, 4, 5, 6, 7, 8, 9::nat}"
  by auto

lemma digit_value_digit: "d < 10 \<Longrightarrow> digit_value (digit d) = d"
  using digit_cases [of d] by (auto simp: digit_def digit_value_def)

lemma digit_not_equals: "d < 10 \<Longrightarrow> digit d \<noteq> CHR ''=''"
  using digit_cases [of d] by (auto simp: digit_def)

lemma read_decimal_snoc:
  "read_decimal (cs @ [c]) = 10 * read_decimal cs + digit_value c"
  by (simp add: read_decimal_def)

lemma read_decimal_decimal: "read_decimal (decimal n) = n"
proof (induction n rule: decimal.induct)
  case (1 n)
  show ?case
  proof (cases "n < 10")
    case True
    then show ?thesis
      by (subst decimal.simps) (simp add: read_decimal_def digit_value_digit)
  next
    case False
    with 1 show ?thesis
      by (subst decimal.simps) (simp add: read_decimal_snoc digit_value_digit)
  qed
qed

lemma decimal_no_equals: "CHR ''='' \<notin> set (decimal n)"
proof (induction n rule: decimal.induct)
  case (1 n)
  show ?case
  proof (cases "n < 10")
    case True
    then show ?thesis
      using digit_not_equals [of n] by (subst decimal.simps) auto
  next
    case False
    have "n mod 10 < 10" by simp
    then have "digit (n mod 10) \<noteq> CHR ''=''" by (rule digit_not_equals)
    with False 1 show ?thesis
      by (subst decimal.simps) auto
  qed
qed

lemma last_query_value_decimal:
  "last_query_value (pre @ ''='' @ decimal n) = decimal n"
proof -
  have "takeWhile (\<lambda>c. c \<noteq> CHR ''='') (rev (decimal n) @ CHR ''='' # rev pre)
          = rev (decimal n) @ takeWhile (\<lambda>c. c \<noteq> CHR ''='') (CHR ''='' # rev pre)"
    using decimal_no_equals [of n] by (intro takeWhile_append2) auto
  then show ?thesis
    by (simp add: last_query_value_def)
qed

lemma stub_embeds_expiry: "embeds_expiry stub_boto3 expiry_param"
  unfolding embeds_expiry_def
proof (intro allI impI)
  fix cl m params ex w url
  assume a: "fst (client_generate_presigned_url stub_boto3 cl m params ex w) = Inr (PStr url)"
  then obtain bucket key t where t: "ex = PInt t" "0 \<le> t"
    and u: "url = (''https://'' @ bucket @ ''.s3.amazonaws.com/'' @ key @ ''?X-Amz-Expires'')
                  @ ''='' @ decimal (nat t)"
    by (auto simp: stub_boto3_def split: option.splits pyval.splits if_splits)
  show "expiry_param url = ex"
    unfolding u expiry_param_def last_query_value_decimal
    using t by (simp add: read_decimal_decimal)
qed


text \<open>The equations that run the helper against the stand-ins on a concrete input.\<close>

lemmas run_simps =
  generate_presigned_url_def trace_def logged_def logged_settings_def settings_of_def
  stub_boto3_def demo_settings_def decimal.simps digit_def

lemmas read_simps =
  expiry_param_def last_query_value_def read_decimal_def digit_value_def


section \<open>Properties of the presigned URL helper\<close>

text \<open>
  C2, as stated, says that the expiry parameter of the returned URL equals the given
  expiration and that the URL for 60 differs from the URL for the default. That is the
  signer's doing, not the helper's: with a signer that writes the time of expiry into
  the URL, the call with 60 at 3540 on the clock and the call with the default at 0
  return the same URL, whose expiry parameter is 3600 and not 60.
\<close>

theorem expiry_parameter_counterexample:
  "fst (generate_presigned_url demo_settings clock_boto3 (PStr ''reports/q1.pdf'')
         (Some (PInt 60)) 3540)
     = Inr (PStr ''https://share-bucket.s3.amazonaws.com/reports/q1.pdf?Expires=3600'')
   \<and> fst (generate_presigned_url demo_settings clock_boto3 (PStr ''reports/q1.pdf'') None 0)
     = Inr (PStr ''https://share-bucket.s3.amazonaws.com/reports/q1.pdf?Expires=3600'')
   \<and> expiry_param ''https://share-bucket.s3.amazonaws.com/reports/q1.pdf?Expires=3600''
     = PInt 3600
   \<and> expiry_param ''https://share-bucket.s3.amazonaws.com/reports/q1.pdf?Expires=3600''
     \<noteq> PInt 60"
  by (simp add: run_simps clock_boto3_def read_simps)

text \<open>
  C2, amended. For every key and every expiration, the helper forwards the expiration
  unchanged as the \<^verbatim>\<open>ExpiresIn\<close> of its signing request, and 3600 when the caller
  omits it: once the bucket name has been read there is exactly one signing request, on
  the client that was built, and its \<^verbatim>\<open>ExpiresIn\<close> is the expiration; what the
  helper does before the request does not depend on the expiration; the call that omits
  the expiration is the call with 3600; and what the helper returns is what that
  request returned. Hence, for a signer that writes the \<^verbatim>\<open>ExpiresIn\<close> it is given
  into the URL, the expiry of the returned URL is the given expiration, 3600 by default
  and 60 for 60, and the URL for 60 differs from the URL for the default.
\<close>

theorem expiration_forwarded:
  "sign_requests (trace s b k e w) =
     (case map_of (settings_reads (trace s b k e w)) ''AWS_STORAGE_BUCKET_NAME'' of
        Some (Inr bucket) \<Rightarrow>
          map (\<lambda>cl. \<lparr>on_client = cl, ClientMethod = ''get_object'',
                     Params = PDict [(''Bucket'', bucket), (''Key'', k)],
                     ExpiresIn = (case e of None \<Rightarrow> PInt 3600 | Some v \<Rightarrow> v)\<rparr>)
            (constructed (trace s b k e w))
      | _ \<Rightarrow> [])
   \<and> length (constructed (trace s b k e w)) \<le> 1
   \<and> preparation (trace s b k e w) = preparation (trace s b k e' w)
   \<and> generate_presigned_url s b k None w = generate_presigned_url s b k (Some (PInt 3600)) w
   \<and> signed (trace s b k e w)
     = (case fst (generate_presigned_url s b k e w) of
          Inl x \<Rightarrow> [] | Inr v \<Rightarrow> [(''get_object'', v)])
   \<and> (embeds_expiry b expiry \<longrightarrow>
        (\<forall>url. fst (generate_presigned_url s b k (Some ex) w) = Inr (PStr url)
           \<longrightarrow> expiry url = ex)
      \<and> (\<forall>url. fst (generate_presigned_url s b k None w) = Inr (PStr url)
           \<longrightarrow> expiry url = PInt 3600)
      \<and> (\<forall>u60 ud w'.
            fst (generate_presigned_url s b k (Some (PInt 60)) w) = Inr (PStr u60)
            \<and> fst (generate_presigned_url s b k None w') = Inr (PStr ud)
           \<longrightarrow> u60 \<noteq> ud))"
proof -
  have default: "generate_presigned_url s b k None w
      = generate_presigned_url s b k (Some (PInt 3600)) w"
    by (simp add: generate_presigned_url_def)
  have url: "expiry url = (case a of None \<Rightarrow> PInt 3600 | Some v \<Rightarrow> v)"
    if c: "embeds_expiry b expiry"
      and r: "fst (generate_presigned_url s b k a w0) = Inr (PStr url)" for a url w0
  proof -
    from returned_url [OF r] obtain cl bucket w' where
      "fst (client_generate_presigned_url b cl ''get_object''
              (PDict [(''Bucket'', bucket), (''Key'', k)])
              (case a of None \<Rightarrow> PInt 3600 | Some v \<Rightarrow> v) w') = Inr (PStr url)"
      by blast
    with c show ?thesis
      unfolding embeds_expiry_def by blast
  qed
  have a3: "expiry url = ex"
    if "embeds_expiry b expiry"
      "fst (generate_presigned_url s b k (Some ex) w) = Inr (PStr url)" for url
    using url [OF that] by simp
  have a4: "expiry url = PInt 3600"
    if "embeds_expiry b expiry"
      "fst (generate_presigned_url s b k None w) = Inr (PStr url)" for url
    using url [OF that] by simp
  have differ: "u60 \<noteq> ud"
    if c: "embeds_expiry b expiry"
      and a: "fst (generate_presigned_url s b k (Some (PInt 60)) w) = Inr (PStr u60)"
      and d: "fst (generate_presigned_url s b k None w') = Inr (PStr ud)" for u60 ud w'
  proof
    assume "u60 = ud"
    moreover have "expiry u60 = PInt 60" using url [OF c a] by simp
    moreover have "expiry ud = PInt 3600" using url [OF c d] by simp
    ultimately show False by simp
  qed
  have cond: "embeds_expiry b expiry \<longrightarrow>
        (\<forall>url. fst (generate_presigned_url s b k (Some ex) w) = Inr (PStr url)
           \<longrightarrow> expiry url = ex)
      \<and> (\<forall>url. fst (generate_presigned_url s b k None w) = Inr (PStr url)
           \<longrightarrow> expiry url = PInt 3600)
      \<and> (\<forall>u60 ud w'.
            fst (generate_presigned_url s b k (Some (PInt 60)) w) = Inr (PStr u60)
            \<and> fst (generate_presigned_url s b k None w') = Inr (PStr ud)
           \<longrightarrow> u60 \<noteq> ud)"
    using a3 a4 differ by blast
  from sign_requests_trace [of s b k e w] constructed_trace [of s b k e w]
    preparation_trace [of s b k e w k e'] default signed_trace [of s b k e w] cond
  show ?thesis
    by (intro conjI)
qed

text \<open>
  The stand-in is such a signer. Run against it, the helper issues one request with 60
  and one with 3600, and the two URLs carry 60 and 3600.
\<close>

theorem expiration_forwarded_witness:
  "embeds_expiry stub_boto3 expiry_param
   \<and> map ExpiresIn (sign_requests
        (trace demo_settings stub_boto3 (PStr ''reports/q1.pdf'') (Some (PInt 60)) 0))
       = [PInt 60]
   \<and> map ExpiresIn (sign_requests
        (trace demo_settings stub_boto3 (PStr ''reports/q1.pdf'') None 0))
       = [PInt 3600]
   \<and> fst (generate_presigned_url demo_settings stub_boto3 (PStr ''reports/q1.pdf'')
          (Some (PInt 60)) 0)
       = Inr (PStr ''https://share-bucket.s3.amazonaws.com/reports/q1.pdf?X-Amz-Expires=60'')
   \<and> fst (generate_presigned_url demo_settings stub_boto3 (PStr ''reports/q1.pdf'') None 0)
       = Inr (PStr ''https://share-bucket.s3.amazonaws.com/reports/q1.pdf?X-Amz-Expires=3600'')
   \<and> expiry_param ''https://share-bucket.s3.amazonaws.com/reports/q1.pdf?X-Amz-Expires=60''
       = PInt 60
   \<and> expiry_param ''https://share-bucket.s3.amazonaws.com/reports/q1.pdf?X-Amz-Expires=3600''
       = PInt 3600
   \<and> ''https://share-bucket.s3.amazonaws.com/reports/q1.pdf?X-Amz-Expires=60''
       \<noteq> ''https://share-bucket.s3.amazonaws.com/reports/q1.pdf?X-Amz-Expires=3600''"
proof -
  have q60: "map ExpiresIn (sign_requests
        (trace demo_settings stub_boto3 (PStr ''reports/q1.pdf'') (Some (PInt 60)) 0))
       = [PInt 60]"
    by (simp add: run_simps)
  have qd: "map ExpiresIn (sign_requests
        (trace demo_settings stub_boto3 (PStr ''reports/q1.pdf'') None 0))
       = [PInt 3600]"
    by (simp add: run_simps)
  have r60: "fst (generate_presigned_url demo_settings stub_boto3 (PStr ''reports/q1.pdf'')
              (Some (PInt 60)) 0)
      = Inr (PStr ''https://share-bucket.s3.amazonaws.com/reports/q1.pdf?X-Amz-Expires=60'')"
    by (simp add: run_simps)
  have rd: "fst (generate_presigned_url demo_settings stub_boto3 (PStr ''reports/q1.pdf'') None 0)
      = Inr (PStr ''https://share-bucket.s3.amazonaws.com/reports/q1.pdf?X-Amz-Expires=3600'')"
    by (simp add: run_simps)
  note fw = expiration_forwarded [of demo_settings stub_boto3 "PStr ''reports/q1.pdf''"
      None 0 None expiry_param "PInt 60"]
  from fw stub_embeds_expiry have
    e60: "expiry_param ''https://share-bucket.s3.amazonaws.com/reports/q1.pdf?X-Amz-Expires=60''
       = PInt 60"
    and ed: "expiry_param
         ''https://share-bucket.s3.amazonaws.com/reports/q1.pdf?X-Amz-Expires=3600''
       = PInt 3600"
    and ne: "''https://share-bucket.s3.amazonaws.com/reports/q1.pdf?X-Amz-Expires=60''
       \<noteq> ''https://share-bucket.s3.amazonaws.com/reports/q1.pdf?X-Amz-Expires=3600''"
    using r60 rd by blast+
  from stub_embeds_expiry q60 qd r60 rd e60 ed ne show ?thesis
    by (intro conjI)
qed




text \<open>
  C4, as stated, says that the helper raises only if the storage client raises. With
  the bucket name not set in the settings, the constructor returns a client, no call to
  the client raises, and the helper ends with the \<^verbatim>\<open>AttributeError\<close> of the
  settings read.
\<close>

theorem settings_error_counterexample:
  "fst (generate_presigned_url unset_bucket_settings stub_boto3 (PStr ''reports/q1.pdf'')
         None 0)
     = Inl (PyExn ''AttributeError'' ''AWS_STORAGE_BUCKET_NAME'')
   \<and> constructed (trace unset_bucket_settings stub_boto3 (PStr ''reports/q1.pdf'') None 0)
     = [0]
   \<and> client_raised (trace unset_bucket_settings stub_boto3 (PStr ''reports/q1.pdf'') None 0)
     = []"
  by (simp add: run_simps unset_bucket_settings_def)

text \<open>
  C4, amended. The helper raises if and only if one of its settings reads or the
  storage client (the constructor or the signing method) raises, and the error it
  raises is the very error raised there, untranslated and unmodified: the exceptions
  raised by the operations of a call are exactly the exception the call ends with, or
  none when it returns. In particular an error that the client raised, an authorisation
  error among them, is the error of the call, with the same type.
\<close>

theorem errors_propagate:
  "settings_raised (trace s b k e w) @ client_raised (trace s b k e w)
     = (case fst (generate_presigned_url s b k e w) of Inl x \<Rightarrow> [x] | Inr v \<Rightarrow> [])
   \<and> (fst (generate_presigned_url s b k e w) = Inl x
        \<longleftrightarrow> x \<in> set (settings_raised (trace s b k e w))
            \<or> x \<in> set (client_raised (trace s b k e w)))
   \<and> (x \<in> set (client_raised (trace s b k e w))
        \<longrightarrow> fst (generate_presigned_url s b k e w) = Inl x)
   \<and> map exn_type (settings_raised (trace s b k e w) @ client_raised (trace s b k e w))
     = (case fst (generate_presigned_url s b k e w) of
          Inl x \<Rightarrow> [exn_type x] | Inr v \<Rightarrow> [])"
proof -
  note r = raised_trace [of s b k e w]
  have i: "fst (generate_presigned_url s b k e w) = Inl x
        \<longleftrightarrow> x \<in> set (settings_raised (trace s b k e w))
            \<or> x \<in> set (client_raised (trace s b k e w))"
  proof (cases "fst (generate_presigned_url s b k e w)")
    case (Inl y)
    with r have "set (settings_raised (trace s b k e w))
        \<union> set (client_raised (trace s b k e w)) = {y}"
      by (metis set_append list.simps(15) empty_set sum.simps(5))
    with Inl show ?thesis by auto
  next
    case (Inr v)
    with r show ?thesis by simp
  qed
  have c: "x \<in> set (client_raised (trace s b k e w))
        \<longrightarrow> fst (generate_presigned_url s b k e w) = Inl x"
    using i by blast
  have t: "map exn_type (settings_raised (trace s b k e w) @ client_raised (trace s b k e w))
     = (case fst (generate_presigned_url s b k e w) of
          Inl x \<Rightarrow> [exn_type x] | Inr v \<Rightarrow> [])"
    unfolding r by (simp split: sum.splits)
  from r i c t show ?thesis
    by (intro conjI)
qed

text \<open>An authorisation error of the signer reaches the caller as it is.\<close>

theorem errors_propagate_witness:
  "client_raised (trace demo_settings denying_boto3 (PStr ''reports/q1.pdf'') None 0)
     = [PyExn ''ClientError'' ''AccessDenied'']
   \<and> fst (generate_presigned_url demo_settings denying_boto3 (PStr ''reports/q1.pdf'') None 0)
     = Inl (PyExn ''ClientError'' ''AccessDenied'')
   \<and> exn_type (PyExn ''ClientError'' ''AccessDenied'') = ''ClientError''"
proof -
  have d: "client_raised (trace demo_settings denying_boto3 (PStr ''reports/q1.pdf'') None 0)
      = [PyExn ''ClientError'' ''AccessDenied'']"
    by (simp add: run_simps denying_boto3_def)
  have m: "PyExn ''ClientError'' ''AccessDenied''
      \<in> set (client_raised (trace demo_settings denying_boto3 (PStr ''reports/q1.pdf'') None 0))"
    unfolding d by simp
  note p = errors_propagate [of demo_settings denying_boto3 "PStr ''reports/q1.pdf''"
      None 0 "PyExn ''ClientError'' ''AccessDenied''"]
  from p have i: "PyExn ''ClientError'' ''AccessDenied''
        \<in> set (client_raised (trace demo_settings denying_boto3 (PStr ''reports/q1.pdf'') None 0))
      \<longrightarrow> fst (generate_presigned_url demo_settings denying_boto3
        (PStr ''reports/q1.pdf'') None 0) = Inl (PyExn ''ClientError'' ''AccessDenied'')"
    by (rule conjunct2 [THEN conjunct2, THEN conjunct1])
  from i m have r: "fst (generate_presigned_url demo_settings denying_boto3
        (PStr ''reports/q1.pdf'') None 0) = Inl (PyExn ''ClientError'' ''AccessDenied'')"
    by (rule mp)
  have t: "exn_type (PyExn ''ClientError'' ''AccessDenied'') = ''ClientError''"
    by simp
  from d r t show ?thesis
    by (intro conjI)
qed




text \<open>
  C8. For every key and every expiration, the method of every signing request of a call
  is \<^verbatim>\<open>get_object\<close>, never \<^verbatim>\<open>put_object\<close> or \<^verbatim>\<open>delete_object\<close>, and a
  value the helper returns is the value a \<^verbatim>\<open>get_object\<close> signing request returned.
\<close>

theorem only_get_object_is_signed:
  "set (map ClientMethod (sign_requests (trace s b k e w))) \<subseteq> {''get_object''}
   \<and> ''put_object'' \<notin> set (map ClientMethod (sign_requests (trace s b k e w)))
   \<and> ''delete_object'' \<notin> set (map ClientMethod (sign_requests (trace s b k e w)))
   \<and> signed (trace s b k e w)
     = (case fst (generate_presigned_url s b k e w) of
          Inl x \<Rightarrow> [] | Inr v \<Rightarrow> [(''get_object'', v)])"
proof -
  note m = methods_trace [of s b k e w]
  have "''put_object'' \<notin> set (map ClientMethod (sign_requests (trace s b k e w)))"
    using m by auto
  moreover have "''delete_object'' \<notin> set (map ClientMethod (sign_requests (trace s b k e w)))"
    using m by auto
  ultimately show ?thesis
    using m signed_trace [of s b k e w] by (intro conjI)
qed

text \<open>
  C9. The helper does not check the expiration. For every expiration, zero and the
  negative integers among them, its signing requests are those of a call with any other
  expiration, with the given value as \<^verbatim>\<open>ExpiresIn\<close>, unchanged; what it does before
  the request is the same whatever the expiration; and an exception the call ends with
  is one that a settings read or the library raised, never one of the helper's own.
\<close>

theorem expiration_not_validated:
  "sign_requests (trace s b k (Some ex) w)
     = map (\<lambda>r. r\<lparr>ExpiresIn := ex\<rparr>) (sign_requests (trace s b k e' w))
   \<and> sign_requests (trace s b k (Some (PInt 0)) w)
     = map (\<lambda>r. r\<lparr>ExpiresIn := PInt 0\<rparr>) (sign_requests (trace s b k None w))
   \<and> sign_requests (trace s b k (Some (PInt (- int n))) w)
     = map (\<lambda>r. r\<lparr>ExpiresIn := PInt (- int n)\<rparr>) (sign_requests (trace s b k None w))
   \<and> preparation (trace s b k (Some ex) w) = preparation (trace s b k e' w)
   \<and> settings_raised (trace s b k (Some ex) w) @ client_raised (trace s b k (Some ex) w)
     = (case fst (generate_presigned_url s b k (Some ex) w) of
          Inl x \<Rightarrow> [x] | Inr v \<Rightarrow> [])"
  using sign_requests_expiration [of s b k ex w e']
    sign_requests_expiration [of s b k "PInt 0" w None]
    sign_requests_expiration [of s b k "PInt (- int n)" w None]
    preparation_trace [of s b k "Some ex" w k e']
    raised_trace [of s b k "Some ex" w]
  by (intro conjI)

text \<open>
  With the stand-in, the expiration -5 reaches the signer, which is the one to refuse
  it, and the expiration 0 is signed.
\<close>

theorem expiration_not_validated_witness:
  "sign_requests (trace demo_settings stub_boto3 (PStr ''reports/q1.pdf'') (Some (PInt (- 5))) 0)
     = [\<lparr>on_client = 0, ClientMethod = ''get_object'',
         Params = PDict [(''Bucket'', PStr ''share-bucket''), (''Key'', PStr ''reports/q1.pdf'')],
         ExpiresIn = PInt (- 5)\<rparr>]
   \<and> client_raised (trace demo_settings stub_boto3 (PStr ''reports/q1.pdf'')
        (Some (PInt (- 5))) 0)
     = [PyExn ''ParamValidationError'' ''ExpiresIn'']
   \<and> fst (generate_presigned_url demo_settings stub_boto3 (PStr ''reports/q1.pdf'')
          (Some (PInt (- 5))) 0)
     = Inl (PyExn ''ParamValidationError'' ''ExpiresIn'')
   \<and> fst (generate_presigned_url demo_settings stub_boto3 (PStr ''reports/q1.pdf'')
          (Some (PInt 0)) 0)
     = Inr (PStr ''https://share-bucket.s3.amazonaws.com/reports/q1.pdf?X-Amz-Expires=0'')"
proof -
  have d: "sign_requests (trace demo_settings stub_boto3 (PStr ''reports/q1.pdf'') None 0)
     = [\<lparr>on_client = 0, ClientMethod = ''get_object'',
         Params = PDict [(''Bucket'', PStr ''share-bucket''), (''Key'', PStr ''reports/q1.pdf'')],
         ExpiresIn = PInt 3600\<rparr>]"
    by (simp add: run_simps)
  have rs: "client_raised (trace demo_settings stub_boto3 (PStr ''reports/q1.pdf'')
        (Some (PInt (- 5))) 0)
     = [PyExn ''ParamValidationError'' ''ExpiresIn'']"
    by (simp add: run_simps)
  have r5: "fst (generate_presigned_url demo_settings stub_boto3 (PStr ''reports/q1.pdf'')
          (Some (PInt (- 5))) 0)
     = Inl (PyExn ''ParamValidationError'' ''ExpiresIn'')"
    by (simp add: run_simps)
  have r0: "fst (generate_presigned_url demo_settings stub_boto3 (PStr ''reports/q1.pdf'')
          (Some (PInt 0)) 0)
     = Inr (PStr ''https://share-bucket.s3.amazonaws.com/reports/q1.pdf?X-Amz-Expires=0'')"
    by (simp add: run_simps)
  note nv = expiration_not_validated [of demo_settings stub_boto3 "PStr ''reports/q1.pdf''"
      "PInt (- 5)" 0 None 0]
  from nv have "sign_requests
      (trace demo_settings stub_boto3 (PStr ''reports/q1.pdf'') (Some (PInt (- 5))) 0)
     = map (\<lambda>r. r\<lparr>ExpiresIn := PInt (- 5)\<rparr>)
         (sign_requests (trace demo_settings stub_boto3 (PStr ''reports/q1.pdf'') None 0))"
    by (rule conjunct1)
  then have rq: "sign_requests
      (trace demo_settings stub_boto3 (PStr ''reports/q1.pdf'') (Some (PInt (- 5))) 0)
     = [\<lparr>on_client = 0, ClientMethod = ''get_object'',
         Params = PDict [(''Bucket'', PStr ''share-bucket''), (''Key'', PStr ''reports/q1.pdf'')],
         ExpiresIn = PInt (- 5)\<rparr>]"
    unfolding d by simp
  from rq rs r5 r0 show ?thesis
    by (intro conjI)
qed

end
